theory Spec2Isabelle
  imports Main
begin

section \<open>Strings and the two regular-expression replacements\<close>

text \<open>
  A JavaScript string is modelled as a \<^typ>\<open>string\<close>, one \<^typ>\<open>char\<close> per code unit; the
  model covers the code units below 256. \<open>undefined\<close> is \<^const>\<open>None\<close>. A string is truthy
  when it is defined and not empty.
\<close>

definition backslash :: char where
  "backslash = CHR 0x5C"

definition quote :: char where
  "quote = CHR 0x27"

definition newline :: char where
  "newline = CHR 0x0A"

definition carriage_return :: char where
  "carriage_return = CHR 0x0D"

text \<open>
  The class \<open>\s\<close> of a JavaScript regular expression, on the code units below 256: tab,
  line feed, vertical tab, form feed, carriage return, space and the no-break space.
\<close>

definition is_whitespace :: "char \<Rightarrow> bool" where
  "is_whitespace c \<longleftrightarrow> c \<in> {CHR 0x09, CHR 0x0A, CHR 0x0B, CHR 0x0C, CHR 0x0D, CHR 0x20, CHR 0xA0}"

text \<open>The pattern \<open>/\s|&|'/\<close> of \<open>buildTagCommand\<close>: one character of three alternatives.\<close>

definition shell_special :: "char \<Rightarrow> bool" where
  "shell_special c \<longleftrightarrow> is_whitespace c \<or> c = CHR ''&'' \<or> c = quote"

text \<open>
  \<open>s.replace(re, '\\$&')\<close> for a global pattern \<open>re\<close> that matches one character: every
  match is replaced by a backslash followed by the match, the rest is copied.
\<close>

primrec replace_backslash_match :: "(char \<Rightarrow> bool) \<Rightarrow> string \<Rightarrow> string" where
  "replace_backslash_match re [] = []"
| "replace_backslash_match re (c # cs) =
     (if re c then backslash # c # replace_backslash_match re cs
      else c # replace_backslash_match re cs)"

text \<open>
  The character class \<open>[\n|\r]\<close> of \<open>Atom.arg\<close>. Inside a class the bar is a literal, so
  the class has three members: line feed, the vertical bar and carriage return.
\<close>

definition newline_class :: "char \<Rightarrow> bool" where
  "newline_class c \<longleftrightarrow> c = newline \<or> c = CHR ''|'' \<or> c = carriage_return"

text \<open>
  \<open>s.replace(/[\n|\r]+/g, ' ')\<close>: the pattern is greedy, so a match is a maximal run of
  class members, and each run becomes one space.
\<close>

function replace_runs :: "(char \<Rightarrow> bool) \<Rightarrow> string \<Rightarrow> string" where
  "replace_runs re [] = []"
| "replace_runs re (c # cs) =
     (if re c then CHR '' '' # replace_runs re (dropWhile re cs)
      else c # replace_runs re cs)"
  by pat_completeness auto
termination
  by (relation "measure (\<lambda>(re, s). length s)")
     (simp_all add: length_dropWhile_le less_Suc_eq_le)

section \<open>Atoms\<close>

datatype MediaKind = MOVIE | MUSIC | AUDIOBOOK | MUSIC_VIDEO | TV_SHOW | BOOKLET | RINGTONE

text \<open>The string value of each member of the enum, as the source spells it.\<close>

fun MediaKind_value :: "MediaKind \<Rightarrow> string" where
  "MediaKind_value MOVIE = ''Movie''"
| "MediaKind_value MUSIC = ''Music''"
| "MediaKind_value AUDIOBOOK = ''Audiobook''"
| "MediaKind_value MUSIC_VIDEO = ''Music Video''"
| "MediaKind_value TV_SHOW = ''TV Show''"
| "MediaKind_value BOOKLET = ''Booklet''"
| "MediaKind_value RINGTONE = ''Rightone''"


text \<open>\<open>AtomTag.artwork\<close>, the one property of the table that \<open>Atom.arg\<close> reads.\<close>

definition AtomTag_artwork :: string where
  "AtomTag_artwork = ''Artwork''"

datatype Atom = Atom (tag: string) (val: string)

text \<open>
  \<open>Atom.arg\<close>: the value with the runs replaced, then with the quotes escaped, wrapped in
  quotes unless the tag is the artwork tag, inside \<open>{'tag':...}\<close>.
\<close>

definition Atom_arg :: "Atom \<Rightarrow> string" where
  "Atom_arg a =
    (let escapedValue = replace_backslash_match (\<lambda>c. c = quote) (replace_runs newline_class (val a));
         escapedValue = (if tag a \<noteq> AtomTag_artwork then [quote] @ escapedValue @ [quote]
                         else escapedValue)
     in ''{'' @ [quote] @ tag a @ [quote] @ '':'' @ escapedValue @ ''}'')"

text \<open>The classes \<open>Builder\<close> and \<open>Atoms\<close> hold one field, the array \<open>inner\<close>.\<close>

record Atoms =
  inner :: "Atom list"

definition Atoms_new :: Atoms where
  "Atoms_new = \<lparr>inner = []\<rparr>"

definition Atoms_addAtom :: "Atoms \<Rightarrow> Atom \<Rightarrow> Atoms" where
  "Atoms_addAtom this a = this\<lparr>inner := inner this @ [a]\<rparr>"

definition Atoms_add :: "Atoms \<Rightarrow> string \<Rightarrow> string \<Rightarrow> Atoms" where
  "Atoms_add this t v = this\<lparr>inner := inner this @ [Atom t v]\<rparr>"

definition Atoms_addAtoms :: "Atoms \<Rightarrow> Atoms \<Rightarrow> Atoms" where
  "Atoms_addAtoms this other = this\<lparr>inner := inner this @ inner other\<rparr>"


text \<open>\<open>Atoms.args\<close>: nothing for an empty array, else the flag and the joined renderings.\<close>

definition Atoms_args :: "Atoms \<Rightarrow> string list" where
  "Atoms_args this =
    (if length (inner this) > 0 then [''-metadata'', concat (map Atom_arg (inner this))]
     else [])"

section \<open>The path library\<close>

text \<open>
  \<open>parse\<close> and \<open>join\<close> come from the \<open>path\<close> module of Node.js, not from this
  repository. They are transcribed here in their POSIX flavour, loop by loop, so that a
  destination can be computed. The lemmas on the destination search hold whatever the
  two functions return; only the concrete runs evaluate them, on \<open>movie.mp4\<close>. An index
  that starts at \<open>-1\<close> in the library is an \<^typ>\<open>int\<close> or a \<^typ>\<open>nat option\<close>.
\<close>

definition slice :: "string \<Rightarrow> nat \<Rightarrow> nat \<Rightarrow> string" where
  "slice s a b = take (b - a) (drop a s)"

text \<open>
  \<open>path.parse\<close>: the scan runs from the last character down to \<open>start\<close>; it skips
  trailing slashes, stops at the slash before the last component and records the last
  dot of that component.
\<close>

record parse_state =
  startDot :: "nat option"
  startPart :: nat
  endPos :: "nat option"
  matchedSlash :: bool
  preDotState :: int

fun parse_scan :: "string \<Rightarrow> nat \<Rightarrow> nat \<Rightarrow> parse_state \<Rightarrow> parse_state" where
  "parse_scan path start 0 st = st"
| "parse_scan path start (Suc n) st =
     (let i = start + n; code = path ! i in
      if code = CHR ''/'' then
        (if \<not> matchedSlash st then st\<lparr>startPart := i + 1\<rparr>
         else parse_scan path start n st)
      else
        let st1 = (if endPos st = None then st\<lparr>endPos := Some (i + 1), matchedSlash := False\<rparr>
                   else st);
            st2 = (if code = CHR ''.'' then
                     (if startDot st1 = None then st1\<lparr>startDot := Some i\<rparr>
                      else if preDotState st1 \<noteq> 1 then st1\<lparr>preDotState := 1\<rparr>
                      else st1)
                   else if startDot st1 \<noteq> None then st1\<lparr>preDotState := - 1\<rparr>
                   else st1)
        in parse_scan path start n st2)"

record ParsedPath =
  root :: string
  dir :: string
  base :: string
  ext :: string
  name :: string

definition parse :: "string \<Rightarrow> ParsedPath" where
  "parse path =
    (let ret = \<lparr>root = [], dir = [], base = [], ext = [], name = []\<rparr> in
     if length path = 0 then ret
     else
       let isAbsolute = (path ! 0 = CHR ''/'');
           ret = (if isAbsolute then ret\<lparr>root := ''/''\<rparr> else ret);
           start = (if isAbsolute then 1 else 0);
           st = parse_scan path start (length path - start)
                  \<lparr>startDot = None, startPart = 0, endPos = None, matchedSlash = True,
                   preDotState = 0\<rparr>;
           ret = (case endPos st of
                    None \<Rightarrow> ret
                  | Some e \<Rightarrow>
                      let start = (if startPart st = 0 \<and> isAbsolute then 1 else startPart st) in
                      if startDot st = None \<or> preDotState st = 0 \<or>
                         (preDotState st = 1 \<and> startDot st = Some (e - 1) \<and>
                          startDot st = Some (startPart st + 1))
                      then ret\<lparr>base := slice path start e, name := slice path start e\<rparr>
                      else ret\<lparr>name := slice path start (the (startDot st)),
                               base := slice path start e,
                               ext := slice path (the (startDot st)) e\<rparr>)
       in if startPart st > 0 then ret\<lparr>dir := slice path 0 (startPart st - 1)\<rparr>
          else if isAbsolute then ret\<lparr>dir := ''/''\<rparr>
          else ret)"

text \<open>
  \<open>path.normalize\<close> and its loop \<open>normalizeString\<close>, which runs over the indices
  \<open>0 .. length path\<close> and treats the end of the path as one more separator.
\<close>

fun lastIndexOf :: "string \<Rightarrow> char \<Rightarrow> int" where
  "lastIndexOf [] c = - 1"
| "lastIndexOf (x # xs) c =
     (let r = lastIndexOf xs c in
      if r \<noteq> - 1 then r + 1 else if x = c then 0 else - 1)"

record norm_state =
  res :: string
  lastSegmentLength :: int
  lastSlash :: int
  dots :: int
  code :: char

definition normalize_separator :: "string \<Rightarrow> bool \<Rightarrow> nat \<Rightarrow> norm_state \<Rightarrow> norm_state" where
  "normalize_separator path allowAboveRoot i st =
    (let pop = (length (res st) < 2 \<or> lastSegmentLength st \<noteq> 2 \<or>
                last (res st) \<noteq> CHR ''.'' \<or> last (butlast (res st)) \<noteq> CHR ''.'');
         st1 =
           (if lastSlash st = int i - 1 \<or> dots st = 1 then st
            else if dots st = 2 then
              (if pop \<and> length (res st) > 2 then
                 (let lastSlashIndex = lastIndexOf (res st) CHR ''/'' in
                  if lastSlashIndex = - 1 then st\<lparr>res := [], lastSegmentLength := 0\<rparr>
                  else
                    let r = slice (res st) 0 (nat lastSlashIndex) in
                    st\<lparr>res := r,
                       lastSegmentLength := int (length r) - 1 - lastIndexOf r CHR ''/''\<rparr>)
               else if pop \<and> length (res st) \<noteq> 0 then st\<lparr>res := [], lastSegmentLength := 0\<rparr>
               else if allowAboveRoot then
                 st\<lparr>res := res st @ (if length (res st) > 0 then ''/..'' else ''..''),
                    lastSegmentLength := 2\<rparr>
               else st)
            else
              st\<lparr>res := (if length (res st) > 0
                          then res st @ ''/'' @ slice path (nat (lastSlash st + 1)) i
                          else slice path (nat (lastSlash st + 1)) i),
                 lastSegmentLength := int i - lastSlash st - 1\<rparr>)
     in st1\<lparr>lastSlash := int i, dots := 0\<rparr>)"

fun normalize_loop :: "string \<Rightarrow> bool \<Rightarrow> nat \<Rightarrow> nat \<Rightarrow> norm_state \<Rightarrow> norm_state" where
  "normalize_loop path allowAboveRoot 0 i st = st"
| "normalize_loop path allowAboveRoot (Suc n) i st =
     (if i \<ge> length path \<and> code st = CHR ''/'' then st
      else
        let st = st\<lparr>code := (if i < length path then path ! i else CHR ''/'')\<rparr>;
            st = (if code st = CHR ''/'' then normalize_separator path allowAboveRoot i st
                  else if code st = CHR ''.'' \<and> dots st \<noteq> - 1 then st\<lparr>dots := dots st + 1\<rparr>
                  else st\<lparr>dots := - 1\<rparr>)
        in normalize_loop path allowAboveRoot n (i + 1) st)"

definition normalizeString :: "string \<Rightarrow> bool \<Rightarrow> string" where
  "normalizeString path allowAboveRoot =
     res (normalize_loop path allowAboveRoot (length path + 1) 0
            \<lparr>res = [], lastSegmentLength = 0, lastSlash = - 1, dots = 0, code = CHR 0x00\<rparr>)"

definition normalize :: "string \<Rightarrow> string" where
  "normalize path =
    (if length path = 0 then ''.''
     else
       let isAbsolute = (path ! 0 = CHR ''/'');
           trailingSeparator = (path ! (length path - 1) = CHR ''/'');
           p = normalizeString path (\<not> isAbsolute)
       in if length p = 0 then (if isAbsolute then ''/'' else if trailingSeparator then ''./'' else ''.'')
          else
            let p = (if trailingSeparator then p @ ''/'' else p)
            in if isAbsolute then ''/'' @ p else p)"

fun join_args :: "string option \<Rightarrow> string list \<Rightarrow> string option" where
  "join_args joined [] = joined"
| "join_args joined (arg # rest) =
     join_args (if length arg > 0
                then (case joined of None \<Rightarrow> Some arg | Some j \<Rightarrow> Some (j @ ''/'' @ arg))
                else joined) rest"

definition join :: "string list \<Rightarrow> string" where
  "join paths = (case join_args None paths of None \<Rightarrow> ''.'' | Some joined \<Rightarrow> normalize joined)"

text \<open>
  The template \<open>${i}\<close> for a counter \<open>i\<close> that starts at 0 and grows by one: its decimal
  digits.
\<close>

fun string_of_nat :: "nat \<Rightarrow> string" where
  "string_of_nat n =
     (if n < 10 then [char_of (48 + n)]
      else string_of_nat (n div 10) @ [char_of (48 + n mod 10)])"

declare string_of_nat.simps [simp del]

section \<open>Subler\<close>

text \<open>
  The world outside the builder: the file system is the set of paths at which
  \<open>existsSync\<close> answers true, the environment is the value of \<open>SUBLER_PATH\<close>.
\<close>

type_synonym filesystem = "string \<Rightarrow> bool"

definition existsSync :: "filesystem \<Rightarrow> string \<Rightarrow> bool" where
  "existsSync fs p = fs p"

text \<open>
  The builder holds a reference to the \<open>Atoms\<close> object its caller passed in. The store
  maps references to objects, so that a write through the builder's reference is a write
  to the caller's object.
\<close>

type_synonym ref = nat

type_synonym store = "ref \<Rightarrow> Atoms"

record SublerStruct =
  source :: string
  dest :: "string option"
  chaptersPreview :: bool
  optimize :: bool
  organizeGroups :: bool
  bitChunk64 :: bool
  atoms :: ref
  mediaKind :: "MediaKind option"

record SublerCommand =
  command :: string
  args :: "string list"

text \<open>
  The two errors of \<open>buildTagCommand\<close>: \<open>'Source file does not exist.'\<close> and
  \<open>'Destination Not Found!'\<close>.
\<close>

datatype error = SourceNotFound | DestinationNotFound

definition Subler_new :: "string \<Rightarrow> ref \<Rightarrow> SublerStruct" where
  "Subler_new src a =
    \<lparr>source = src, dest = None, chaptersPreview = True, optimize = True,
     organizeGroups = True, bitChunk64 = True, atoms = a, mediaKind = Some MOVIE\<rparr>"

definition Subler_optimise :: "SublerStruct \<Rightarrow> bool \<Rightarrow> SublerStruct" where
  "Subler_optimise this v = this\<lparr>optimize := v\<rparr>"

definition Subler_mediaKind :: "SublerStruct \<Rightarrow> MediaKind \<Rightarrow> SublerStruct" where
  "Subler_mediaKind this kind = this\<lparr>mediaKind := Some kind\<rparr>"

definition Subler_dest :: "SublerStruct \<Rightarrow> string \<Rightarrow> SublerStruct" where
  "Subler_dest this d = this\<lparr>dest := Some d\<rparr>"

text \<open>\<open>env.SUBLER_PATH || '/usr/local/bin/SublerCli'\<close>: an empty value is falsy.\<close>

definition executable :: "string option \<Rightarrow> string" where
  "executable env_SUBLER_PATH =
    (case env_SUBLER_PATH of
       None \<Rightarrow> ''/usr/local/bin/SublerCli''
     | Some p \<Rightarrow> if p \<noteq> [] then p else ''/usr/local/bin/SublerCli'')"

text \<open>
  The candidate of index \<open>i\<close> for a path \<open>p\<close>, as \<open>nextAvailablePath\<close> builds it: the name of
  \<open>p\<close>, a dot, the index and the extension of \<open>p\<close>, in the directory of \<open>p\<close>.
\<close>

definition suffixed :: "string \<Rightarrow> nat \<Rightarrow> string" where
  "suffixed p i =
    join [dir (parse p), name (parse p) @ ''.'' @ string_of_nat i @ ext (parse p)]"

text \<open>
  \<open>nextAvailablePath\<close>. The branch that recurses has no \<open>return\<close>: when the inner call
  comes back, whatever it found, the outer call yields \<open>undefined\<close>. The recursion need not
  end, so the result is an option around the value: \<^const>\<open>None\<close> for a call that never
  returns, \<open>Some None\<close> for \<open>undefined\<close>, \<open>Some (Some d)\<close> for the path \<open>d\<close>.
\<close>

partial_function (option) nextAvailablePath ::
  "filesystem \<Rightarrow> string \<Rightarrow> nat \<Rightarrow> string option option" where
  "nextAvailablePath fs p i =
    (let path = parse p;
         d = join [dir path, name path @ ''.'' @ string_of_nat i @ ext path]
     in if existsSync fs d
        then Option.bind (nextAvailablePath fs p (i + 1)) (\<lambda>_. Some None)
        else Some (Some d))"

definition determineDest :: "filesystem \<Rightarrow> SublerStruct \<Rightarrow> string option option" where
  "determineDest fs this =
    (case dest this of
       None \<Rightarrow> nextAvailablePath fs (source this) 0
     | Some d \<Rightarrow>
         if d \<noteq> [] then
           (if existsSync fs d then nextAvailablePath fs d 0 else Some (Some d))
         else nextAvailablePath fs (source this) 0)"

text \<open>
  \<open>buildTagCommand\<close> yields an outcome and a store. The outcome is the command it returns
  or the error it throws, and \<^const>\<open>None\<close> when the destination search never returns.
  The store is the one the call has written, whatever the outcome: the atom of the media
  kind is pushed before the search starts.
\<close>

definition buildTagCommand ::
  "filesystem \<Rightarrow> string option \<Rightarrow> SublerStruct \<Rightarrow> store \<Rightarrow>
   (error + SublerCommand) option \<times> store" where
  "buildTagCommand fs env_SUBLER_PATH this h =
    (if \<not> existsSync fs (source this) then (Some (Inl SourceNotFound), h)
     else
       let h = (case mediaKind this of
                  Some kind \<Rightarrow>
                    h(atoms this :=
                        Atoms_addAtom (h (atoms this)) (Atom ''Media Kind'' (MediaKind_value kind)))
                | None \<Rightarrow> h)
       in case determineDest fs this of
            None \<Rightarrow> (None, h)
          | Some None \<Rightarrow> (Some (Inl DestinationNotFound), h)
          | Some (Some d) \<Rightarrow>
              if d = [] then (Some (Inl DestinationNotFound), h)
              else
                let metaTags = Atoms_args (h (atoms this));
                    escapedSource = replace_backslash_match shell_special (source this);
                    as = [''-source'', escapedSource];
                    escapedDest = replace_backslash_match shell_special d;
                    as = as @ [''-dest'', escapedDest];
                    as = as @ metaTags;
                    as = (if chaptersPreview this then as @ [''-chapterspreview''] else as);
                    as = (if optimize this then as @ [''-optimize''] else as);
                    as = (if organizeGroups this then as @ [''-organizegroups''] else as);
                    as = (if bitChunk64 this then as @ [''-64bitchunk''] else as)
                in (Some (Inr \<lparr>command = executable env_SUBLER_PATH, args = as\<rparr>), h))"

text \<open>
  A number of calls of \<open>buildTagCommand\<close> one after the other, on the same builder and with
  the file system and the environment unchanged, each on the store that the call before
  it has written: the store after the last call.
\<close>

fun buildTagCommand_times ::
  "nat \<Rightarrow> filesystem \<Rightarrow> string option \<Rightarrow> SublerStruct \<Rightarrow> store \<Rightarrow> store" where
  "buildTagCommand_times 0 fs env_SUBLER_PATH this h = h"
| "buildTagCommand_times (Suc n) fs env_SUBLER_PATH this h =
     buildTagCommand_times n fs env_SUBLER_PATH this
       (snd (buildTagCommand fs env_SUBLER_PATH this h))"

section \<open>Notions of the specification\<close>

text \<open>
  The path escaping as the specification words it: each whitespace character, ampersand
  and single quote is preceded by a backslash where it stands, every other character is
  copied.
\<close>

definition backslash_escaped :: "string \<Rightarrow> string" where
  "backslash_escaped p =
    concat (map (\<lambda>c. if is_whitespace c \<or> c = CHR ''&'' \<or> c = quote then [backslash, c]
                     else [c]) p)"

text \<open>A file system with finitely many files: the paths of a list, and no other.\<close>

definition fs_of :: "string list \<Rightarrow> filesystem" where
  "fs_of ps p \<longleftrightarrow> p \<in> set ps"

text \<open>A store in which every reference holds an empty collection.\<close>

definition fresh_store :: store where
  "fresh_store = (\<lambda>r. Atoms_new)"

section \<open>The escaping and the destination search\<close>

text \<open>The replacement of \<open>buildTagCommand\<close> is the escaping of the specification.\<close>

lemma replace_backslash_match_shell:
  "replace_backslash_match shell_special p = backslash_escaped p"
  by (induction p) (simp_all add: backslash_escaped_def shell_special_def)

text \<open>
  A value without a member of the class and without a quote is rendered as it is,
  between quotes.
\<close>

lemma replace_runs_none: "\<forall>c \<in> set v. \<not> re c \<Longrightarrow> replace_runs re v = v"
  by (induction v) simp_all

lemma replace_backslash_match_none:
  "\<forall>c \<in> set v. \<not> re c \<Longrightarrow> replace_backslash_match re v = v"
  by (induction v) simp_all

lemma Atom_arg_plain:
  assumes "\<forall>c \<in> set v. \<not> newline_class c \<and> c \<noteq> quote" and "t \<noteq> ''Artwork''"
  shows "Atom_arg (Atom t v) = ''{'' @ [quote] @ t @ [quote] @ '':'' @ [quote] @ v @ [quote] @ ''}''"
  using assms
  by (simp add: Atom_arg_def AtomTag_artwork_def replace_runs_none replace_backslash_match_none)

text \<open>
  The search of \<open>nextAvailablePath\<close>: a free candidate is returned; a taken one makes the
  call yield \<open>undefined\<close> as soon as the inner call returns, and the inner call returns
  when some later candidate is free.
\<close>

lemma nextAvailablePath_unfold:
  "nextAvailablePath fs p i =
    (if existsSync fs (suffixed p i)
     then Option.bind (nextAvailablePath fs p (Suc i)) (\<lambda>_. Some None)
     else Some (Some (suffixed p i)))"
  by (subst nextAvailablePath.simps) (simp add: suffixed_def Let_def)

lemma nextAvailablePath_free:
  "\<not> existsSync fs (suffixed p i) \<Longrightarrow> nextAvailablePath fs p i = Some (Some (suffixed p i))"
  by (subst nextAvailablePath_unfold) simp

lemma nextAvailablePath_taken:
  "existsSync fs (suffixed p i) \<Longrightarrow>
   nextAvailablePath fs p i = Option.bind (nextAvailablePath fs p (Suc i)) (\<lambda>_. Some None)"
  by (subst nextAvailablePath_unfold) simp

lemma nextAvailablePath_returns:
  "\<not> existsSync fs (suffixed p (i + k)) \<Longrightarrow> nextAvailablePath fs p i \<noteq> None"
proof (induction k arbitrary: i)
  case 0
  then show ?case by (simp add: nextAvailablePath_free)
next
  case (Suc k)
  from Suc.prems have "nextAvailablePath fs p (Suc i) \<noteq> None"
    using Suc.IH [of "Suc i"] by simp
  then show ?case
    by (cases "existsSync fs (suffixed p i)")
       (auto simp: nextAvailablePath_free nextAvailablePath_taken)
qed

lemma nextAvailablePath_result:
  assumes "\<not> existsSync fs (suffixed p (i + k))"
  shows "nextAvailablePath fs p i =
         Some (if existsSync fs (suffixed p i) then None else Some (suffixed p i))"
proof (cases "existsSync fs (suffixed p i)")
  case False
  then show ?thesis by (simp add: nextAvailablePath_free)
next
  case True
  with assms have "k \<noteq> 0" by (cases k) auto
  then obtain k' where "k = Suc k'" by (cases k) auto
  with assms have "\<not> existsSync fs (suffixed p (Suc i + k'))" by simp
  then have "nextAvailablePath fs p (Suc i) \<noteq> None"
    by (rule nextAvailablePath_returns)
  with True show ?thesis by (auto simp: nextAvailablePath_taken)
qed

section \<open>What a call of \<open>buildTagCommand\<close> returns\<close>

text \<open>
  A path that the destination search returns is a free candidate, and no candidate is the
  empty string: \<open>join\<close> ends in \<open>normalize\<close>, which never returns it. So a destination
  that \<open>determineDest\<close> finds is not empty, and the check of \<open>buildTagCommand\<close> for a
  falsy destination fires for \<open>undefined\<close> only.
\<close>

lemma normalize_nonempty: "normalize path \<noteq> []"
  by (simp add: normalize_def Let_def)

lemma join_nonempty: "join paths \<noteq> []"
  by (simp add: join_def normalize_nonempty split: option.splits)

lemma suffixed_nonempty: "suffixed p i \<noteq> []"
  by (simp add: suffixed_def join_nonempty)

lemma nextAvailablePath_path:
  assumes "nextAvailablePath fs p i = Some (Some d)"
  shows "d = suffixed p i \<and> \<not> existsSync fs (suffixed p i)"
proof (cases "existsSync fs (suffixed p i)")
  case True
  with assms show ?thesis
    by (cases "nextAvailablePath fs p (Suc i)") (simp_all add: nextAvailablePath_taken)
next
  case False
  with assms show ?thesis
    by (simp add: nextAvailablePath_free)
qed

lemma determineDest_nonempty:
  assumes "determineDest fs this = Some (Some d)"
  shows "d \<noteq> []"
  using assms suffixed_nonempty
  by (auto simp: determineDest_def split: option.splits if_splits
           dest!: nextAvailablePath_path)

lemma determineDest_explicit:
  assumes "dest this = Some d" and "d \<noteq> []" and "\<not> existsSync fs d"
  shows "determineDest fs this = Some (Some d)"
  using assms by (simp add: determineDest_def)

lemma determineDest_default:
  assumes "dest this = None" and "\<not> existsSync fs (suffixed (source this) 0)"
  shows "determineDest fs this = Some (Some (suffixed (source this) 0))"
  using assms by (simp add: determineDest_def nextAvailablePath_free)

text \<open>
  The store that a call writes: untouched when the source is missing, else with the atom
  of the media kind, if one is set, pushed to the collection of the builder.
\<close>

lemma buildTagCommand_store:
  "snd (buildTagCommand fs e this h) =
     (if \<not> existsSync fs (source this) then h
      else case mediaKind this of
             Some kind \<Rightarrow> h(atoms this := Atoms_addAtom (h (atoms this))
                             (Atom ''Media Kind'' (MediaKind_value kind)))
           | None \<Rightarrow> h)"
  by (simp add: buildTagCommand_def Let_def split: option.splits)

text \<open>
  A command is returned exactly when the source exists and the destination search finds
  a path; the arguments are laid out in the order of the pushes.
\<close>

lemma buildTagCommand_command:
  assumes "existsSync fs (source this)" and "determineDest fs this = Some (Some d)"
  shows "buildTagCommand fs e this h =
     (Some (Inr \<lparr>command = executable e,
                 args = [''-source'', backslash_escaped (source this),
                         ''-dest'', backslash_escaped d]
                   @ Atoms_args (snd (buildTagCommand fs e this h) (atoms this))
                   @ (if chaptersPreview this then [''-chapterspreview''] else [])
                   @ (if optimize this then [''-optimize''] else [])
                   @ (if organizeGroups this then [''-organizegroups''] else [])
                   @ (if bitChunk64 this then [''-64bitchunk''] else [])\<rparr>),
      snd (buildTagCommand fs e this h))"
  using assms determineDest_nonempty [OF assms(2)]
  by (simp add: buildTagCommand_def Let_def replace_backslash_match_shell
           split: option.splits)

lemma buildTagCommand_Inr:
  assumes "buildTagCommand fs e this h = (Some (Inr c), h')"
  shows "existsSync fs (source this) \<and>
         (\<exists>d. determineDest fs this = Some (Some d) \<and> d \<noteq> [] \<and>
           h' = (case mediaKind this of
                   Some kind \<Rightarrow> h(atoms this := Atoms_addAtom (h (atoms this))
                                   (Atom ''Media Kind'' (MediaKind_value kind)))
                 | None \<Rightarrow> h) \<and>
           command c = executable e \<and>
           args c = [''-source'', backslash_escaped (source this), ''-dest'', backslash_escaped d]
             @ Atoms_args (h' (atoms this))
             @ (if chaptersPreview this then [''-chapterspreview''] else [])
             @ (if optimize this then [''-optimize''] else [])
             @ (if organizeGroups this then [''-organizegroups''] else [])
             @ (if bitChunk64 this then [''-64bitchunk''] else []))"
  using assms
  by (auto simp: buildTagCommand_def Let_def replace_backslash_match_shell
           split: if_splits option.splits)

text \<open>
  With the file system unchanged, a second call on the store the first one left returns
  the same source and destination arguments.
\<close>

lemma buildTagCommand_again_same_dest:
  assumes "buildTagCommand fs e this h = (Some (Inr c), h')"
  shows "\<exists>c' h''. buildTagCommand fs e this h' = (Some (Inr c'), h'') \<and>
           take 4 (args c') = take 4 (args c)"
proof -
  from buildTagCommand_Inr [OF assms] obtain d where
    "existsSync fs (source this)" and "determineDest fs this = Some (Some d)" and "d \<noteq> []"
    and "take 4 (args c) =
      [''-source'', backslash_escaped (source this), ''-dest'', backslash_escaped d]"
    by auto
  then show ?thesis
    by (simp add: buildTagCommand_def Let_def replace_backslash_match_shell)
qed

lemma buildTagCommand_times_store:
  assumes "existsSync fs (source this)" and "mediaKind this = Some kind"
  shows "buildTagCommand_times n fs e this h =
         h(atoms this := (h (atoms this))
             \<lparr>inner := inner (h (atoms this)) @
                replicate n (Atom ''Media Kind'' (MediaKind_value kind))\<rparr>)"
proof (induction n arbitrary: h)
  case 0
  show ?case by simp
next
  case (Suc n)
  let ?a = "Atom ''Media Kind'' (MediaKind_value kind)"
  let ?h1 = "h(atoms this := Atoms_addAtom (h (atoms this)) ?a)"
  from assms have "snd (buildTagCommand fs e this h) = ?h1"
    by (simp add: buildTagCommand_store)
  then have "buildTagCommand_times (Suc n) fs e this h = buildTagCommand_times n fs e this ?h1"
    by simp
  also have "\<dots> = ?h1(atoms this := (?h1 (atoms this))
                 \<lparr>inner := inner (?h1 (atoms this)) @ replicate n ?a\<rparr>)"
    by (rule Suc.IH)
  also have "\<dots> = h(atoms this := (h (atoms this))
                 \<lparr>inner := inner (h (atoms this)) @ replicate (Suc n) ?a\<rparr>)"
    by (rule ext) (simp add: Atoms_addAtom_def)
  finally show ?case .
qed

section \<open>Concrete runs\<close>

text \<open>
  Runs on the source \<open>movie.mp4\<close>, evaluated with the definitions: its candidates, the
  search when the first candidate is free, taken, or created after a first call, and the
  whole command of the default builder.
\<close>

lemma suffixed_movie_0: "suffixed ''movie.mp4'' 0 = ''movie.0.mp4''"
  by code_simp

lemma suffixed_movie_1: "suffixed ''movie.mp4'' (Suc 0) = ''movie.1.mp4''"
  by code_simp

lemma nextAvailablePath_movie_taken:
  "nextAvailablePath (fs_of [''movie.mp4'', ''movie.0.mp4'']) ''movie.mp4'' 0 = Some None"
  using nextAvailablePath_result [of "fs_of [''movie.mp4'', ''movie.0.mp4'']" "''movie.mp4''" 0 1]
  by (simp add: suffixed_movie_0 suffixed_movie_1 existsSync_def fs_of_def)

lemma nextAvailablePath_movie_free:
  "nextAvailablePath (fs_of [''movie.mp4'']) ''movie.mp4'' 0 = Some (Some ''movie.0.mp4'')"
  using nextAvailablePath_free [of "fs_of [''movie.mp4'']" "''movie.mp4''" 0]
  by (simp add: suffixed_movie_0 existsSync_def fs_of_def)

lemma nextAvailablePath_movie_created:
  "nextAvailablePath ((fs_of [''movie.mp4''])(''movie.0.mp4'' := True)) ''movie.mp4'' 0 = Some None"
  using nextAvailablePath_result
    [of "(fs_of [''movie.mp4''])(''movie.0.mp4'' := True)" "''movie.mp4''" 0 1]
  by (simp add: suffixed_movie_0 suffixed_movie_1 existsSync_def fs_of_def)

lemma Atom_arg_Media_Kind_Movie:
  "Atom_arg (Atom ''Media Kind'' ''Movie'') = ''{'Media Kind':'Movie'}''"
  by code_simp

lemma Atom_arg_Cast_John_Doe:
  "Atom_arg (Atom ''Cast'' ''John Doe'') = ''{'Cast':'John Doe'}''"
  by code_simp

lemma Atom_arg_Cast_Jane_Doe:
  "Atom_arg (Atom ''Cast'' ''Jane Doe'') = ''{'Cast':'Jane Doe'}''"
  by code_simp

lemma backslash_escaped_movie: "backslash_escaped ''movie.mp4'' = ''movie.mp4''"
  by code_simp

lemma backslash_escaped_movie_0: "backslash_escaped ''movie.0.mp4'' = ''movie.0.mp4''"
  by code_simp

lemma backslash_escaped_dest_path:
  "backslash_escaped ''dest & path'' =
     ''dest'' @ [backslash] @ '' '' @ [backslash] @ ''&'' @ [backslash] @ '' path''"
  by code_simp

lemma buildTagCommand_movie:
  "buildTagCommand (fs_of [''movie.mp4'']) e (Subler_new ''movie.mp4'' 0) fresh_store =
     (Some (Inr \<lparr>command = executable e,
                 args = [''-source'', ''movie.mp4'', ''-dest'', ''movie.0.mp4'',
                         ''-metadata'', ''{'Media Kind':'Movie'}'',
                         ''-chapterspreview'', ''-optimize'', ''-organizegroups'',
                         ''-64bitchunk'']\<rparr>),
      fresh_store(0 := \<lparr>inner = [Atom ''Media Kind'' ''Movie'']\<rparr>))"
proof -
  have "determineDest (fs_of [''movie.mp4'']) (Subler_new ''movie.mp4'' 0) =
          Some (Some ''movie.0.mp4'')"
    by (simp add: determineDest_def Subler_new_def nextAvailablePath_movie_free)
  then show ?thesis
    by (simp add: buildTagCommand_def existsSync_def fs_of_def Subler_new_def fresh_store_def
        Atoms_new_def Atoms_addAtom_def Atoms_args_def Atom_arg_Media_Kind_Movie
        shell_special_def is_whitespace_def quote_def)
qed

section \<open>The claims\<close>

text \<open>
  C1. The claim: the search that starts at index 0 returns the first candidate
  \<open>dir/name.i.ext\<close> at which no file exists. The code: when \<open>movie.mp4\<close> and
  \<open>movie.0.mp4\<close> exist and \<open>movie.1.mp4\<close> does not, the search from the source
  \<open>movie.mp4\<close> returns \<open>undefined\<close> and not \<open>movie.1.mp4\<close>, and so does
  \<open>determineDest\<close> for a builder with no explicit destination.
\<close>

theorem nextAvailablePath_loses_later_candidate:
  "existsSync (fs_of [''movie.mp4'', ''movie.0.mp4'']) ''movie.mp4'' \<and>
   existsSync (fs_of [''movie.mp4'', ''movie.0.mp4'']) (suffixed ''movie.mp4'' 0) \<and>
   \<not> existsSync (fs_of [''movie.mp4'', ''movie.0.mp4'']) (suffixed ''movie.mp4'' (Suc 0)) \<and>
   suffixed ''movie.mp4'' (Suc 0) = ''movie.1.mp4'' \<and>
   nextAvailablePath (fs_of [''movie.mp4'', ''movie.0.mp4'']) ''movie.mp4'' 0 = Some None \<and>
   determineDest (fs_of [''movie.mp4'', ''movie.0.mp4'']) (Subler_new ''movie.mp4'' 0) =
     Some None"
  by (simp add: nextAvailablePath_movie_taken determineDest_def Subler_new_def
      suffixed_movie_0 suffixed_movie_1 existsSync_def fs_of_def)

text \<open>
  C2. The claim: when the source exists, \<open>buildTagCommand\<close> never raises
  DestinationNotFound. The code: on the file system that holds \<open>movie.mp4\<close> and
  \<open>movie.0.mp4\<close> and nothing else, the default builder for the source \<open>movie.mp4\<close>
  raises DestinationNotFound.
\<close>

theorem buildTagCommand_raises_DestinationNotFound:
  "existsSync (fs_of [''movie.mp4'', ''movie.0.mp4'']) (source (Subler_new ''movie.mp4'' 0)) \<and>
   fst (buildTagCommand (fs_of [''movie.mp4'', ''movie.0.mp4'']) None
          (Subler_new ''movie.mp4'' 0) fresh_store) =
     Some (Inl DestinationNotFound)"
proof -
  have "determineDest (fs_of [''movie.mp4'', ''movie.0.mp4'']) (Subler_new ''movie.mp4'' 0) =
          Some None"
    by (simp add: nextAvailablePath_movie_taken determineDest_def Subler_new_def)
  then show ?thesis
    by (simp add: buildTagCommand_def existsSync_def fs_of_def Subler_new_def)
qed

text \<open>
  C3. The claim: \<open>arg\<close> changes no character of the value but line feed, carriage return
  and single quote. The code: the vertical bar is a member of the class \<open>[\n|\r]\<close>, so
  the atom with tag \<open>Cast\<close> and value \<open>a|b\<close> is rendered as \<open>{'Cast':'a b'}\<close>.
\<close>

theorem Atom_arg_replaces_vertical_bar:
  "Atom_arg (Atom ''Cast'' ''a|b'') = ''{'Cast':'a b'}''"
  by code_simp

text \<open>
  C4, as stated: every call of \<open>buildTagCommand\<close> on a builder whose media kind is set
  appends one atom. It fails for a call that raises SourceNotFound: the default builder
  for \<open>movie.mp4\<close>, on a file system with no file, leaves the collection as it was.
\<close>

theorem buildTagCommand_SourceNotFound_appends_nothing:
  "mediaKind (Subler_new ''movie.mp4'' 0) = Some MOVIE \<and>
   (\<exists>h'. buildTagCommand (fs_of []) None (Subler_new ''movie.mp4'' 0) fresh_store =
            (Some (Inl SourceNotFound), h') \<and>
          inner (h' (atoms (Subler_new ''movie.mp4'' 0))) =
            inner (fresh_store (atoms (Subler_new ''movie.mp4'' 0))) \<and>
          inner (h' (atoms (Subler_new ''movie.mp4'' 0))) \<noteq>
            inner (fresh_store (atoms (Subler_new ''movie.mp4'' 0))) @
              [Atom ''Media Kind'' (MediaKind_value MOVIE)])"
  by (simp add: buildTagCommand_def existsSync_def fs_of_def Subler_new_def)

text \<open>
  C4, amended: every call of \<open>buildTagCommand\<close> on a builder whose source file exists and
  whose media kind is set appends exactly one atom with tag \<open>Media Kind\<close> and the value
  of the kind to the collection the builder refers to, in the store the caller shares,
  and changes no other object of the store. This holds whatever the outcome of the call.
  Hence \<open>n\<close> calls in a row append \<open>n\<close> of these atoms, two calls two.
\<close>

theorem buildTagCommand_appends_media_kind:
  assumes "existsSync fs (source this)" and "mediaKind this = Some kind"
  shows "snd (buildTagCommand fs e this h) =
           h(atoms this := (h (atoms this))
               \<lparr>inner := inner (h (atoms this)) @
                  [Atom ''Media Kind'' (MediaKind_value kind)]\<rparr>) \<and>
         buildTagCommand_times n fs e this h =
           h(atoms this := (h (atoms this))
               \<lparr>inner := inner (h (atoms this)) @
                  replicate n (Atom ''Media Kind'' (MediaKind_value kind))\<rparr>)"
proof
  from assms
  show "snd (buildTagCommand fs e this h) =
           h(atoms this := (h (atoms this))
               \<lparr>inner := inner (h (atoms this)) @
                  [Atom ''Media Kind'' (MediaKind_value kind)]\<rparr>)"
    by (simp add: buildTagCommand_store Atoms_addAtom_def)
  from assms
  show "buildTagCommand_times n fs e this h =
           h(atoms this := (h (atoms this))
               \<lparr>inner := inner (h (atoms this)) @
                  replicate n (Atom ''Media Kind'' (MediaKind_value kind))\<rparr>)"
    by (rule buildTagCommand_times_store)
qed

theorem buildTagCommand_appends_media_kind_witness:
  "existsSync (fs_of [''movie.mp4'', ''movie.0.mp4'']) (source (Subler_new ''movie.mp4'' 0)) \<and>
   mediaKind (Subler_new ''movie.mp4'' 0) = Some MOVIE \<and>
   snd (buildTagCommand (fs_of [''movie.mp4'', ''movie.0.mp4'']) None
          (Subler_new ''movie.mp4'' 0) fresh_store) =
     fresh_store(0 := \<lparr>inner = [Atom ''Media Kind'' ''Movie'']\<rparr>) \<and>
   buildTagCommand_times 2 (fs_of [''movie.mp4'', ''movie.0.mp4'']) None
     (Subler_new ''movie.mp4'' 0) fresh_store =
     fresh_store(0 := \<lparr>inner = [Atom ''Media Kind'' ''Movie'', Atom ''Media Kind'' ''Movie'']\<rparr>)"
proof -
  let ?fs = "fs_of [''movie.mp4'', ''movie.0.mp4'']"
  have 1: "existsSync ?fs (source (Subler_new ''movie.mp4'' 0))"
    by (simp add: existsSync_def fs_of_def Subler_new_def)
  have 2: "mediaKind (Subler_new ''movie.mp4'' 0) = Some MOVIE"
    by (simp add: Subler_new_def)
  have 3: "atoms (Subler_new ''movie.mp4'' 0) = 0"
    by (simp add: Subler_new_def)
  note run = buildTagCommand_appends_media_kind [OF 1 2, of None fresh_store 2]
  have once: "(fresh_store 0)\<lparr>inner := inner (fresh_store 0) @
        [Atom ''Media Kind'' (MediaKind_value MOVIE)]\<rparr> =
      \<lparr>inner = [Atom ''Media Kind'' ''Movie'']\<rparr>"
    by (simp add: fresh_store_def Atoms_new_def)
  have twice: "(fresh_store 0)\<lparr>inner := inner (fresh_store 0) @
        replicate 2 (Atom ''Media Kind'' (MediaKind_value MOVIE))\<rparr> =
      \<lparr>inner = [Atom ''Media Kind'' ''Movie'', Atom ''Media Kind'' ''Movie'']\<rparr>"
    by (simp add: fresh_store_def Atoms_new_def numeral_2_eq_2)
  from run have "snd (buildTagCommand ?fs None (Subler_new ''movie.mp4'' 0) fresh_store) =
      fresh_store(0 := \<lparr>inner = [Atom ''Media Kind'' ''Movie'']\<rparr>)"
    and "buildTagCommand_times 2 ?fs None (Subler_new ''movie.mp4'' 0) fresh_store =
      fresh_store(0 := \<lparr>inner = [Atom ''Media Kind'' ''Movie'', Atom ''Media Kind'' ''Movie'']\<rparr>)"
    by (simp_all only: 3 once twice)
  with 1 2 show ?thesis
    by (intro conjI)
qed

text \<open>
  C5. The claim: when the file at the destination of the first call has been created
  before the second call, the second call yields the path with the next suffix. The
  code: on the file system that holds only \<open>movie.mp4\<close>, the default builder for
  \<open>movie.mp4\<close> first yields the destination \<open>movie.0.mp4\<close>; once that file exists, the
  second call raises DestinationNotFound, though \<open>movie.1.mp4\<close> does not exist.
\<close>

theorem buildTagCommand_after_creation_raises:
  "buildTagCommand (fs_of [''movie.mp4'']) None (Subler_new ''movie.mp4'' 0) fresh_store =
     (Some (Inr \<lparr>command = ''/usr/local/bin/SublerCli'',
                 args = [''-source'', ''movie.mp4'', ''-dest'', ''movie.0.mp4'',
                         ''-metadata'', ''{'Media Kind':'Movie'}'',
                         ''-chapterspreview'', ''-optimize'', ''-organizegroups'',
                         ''-64bitchunk'']\<rparr>),
      fresh_store(0 := \<lparr>inner = [Atom ''Media Kind'' ''Movie'']\<rparr>)) \<and>
   \<not> existsSync ((fs_of [''movie.mp4''])(''movie.0.mp4'' := True)) ''movie.1.mp4'' \<and>
   fst (buildTagCommand ((fs_of [''movie.mp4''])(''movie.0.mp4'' := True)) None
          (Subler_new ''movie.mp4'' 0)
          (fresh_store(0 := \<lparr>inner = [Atom ''Media Kind'' ''Movie'']\<rparr>))) =
     Some (Inl DestinationNotFound)"
proof -
  have "determineDest ((fs_of [''movie.mp4''])(''movie.0.mp4'' := True))
          (Subler_new ''movie.mp4'' 0) = Some None"
    by (simp add: determineDest_def Subler_new_def nextAvailablePath_movie_created)
  then have "fst (buildTagCommand ((fs_of [''movie.mp4''])(''movie.0.mp4'' := True)) None
          (Subler_new ''movie.mp4'' 0)
          (fresh_store(0 := \<lparr>inner = [Atom ''Media Kind'' ''Movie'']\<rparr>))) =
     Some (Inl DestinationNotFound)"
    by (simp add: buildTagCommand_def existsSync_def fs_of_def Subler_new_def)
  then show ?thesis
    by (simp add: buildTagCommand_movie executable_def existsSync_def fs_of_def)
qed

text \<open>
  C6. When the source does not exist, \<open>buildTagCommand\<close> raises SourceNotFound and leaves
  the store, hence the collection of atoms, as it was. This holds whatever the
  destination search would do, also where it would not return or would find nothing:
  the check comes first.
\<close>

theorem buildTagCommand_SourceNotFound:
  "\<not> existsSync fs (source this) \<Longrightarrow>
   buildTagCommand fs e this h = (Some (Inl SourceNotFound), h)"
  by (simp add: buildTagCommand_def)

theorem buildTagCommand_SourceNotFound_witness:
  "\<not> existsSync (fs_of [''other.mp4'']) (source (Subler_new ''movie.mp4'' 0)) \<and>
   buildTagCommand (fs_of [''other.mp4'']) None (Subler_new ''movie.mp4'' 0)
     (fresh_store(0 := \<lparr>inner = [Atom ''Cast'' ''John Doe'']\<rparr>)) =
     (Some (Inl SourceNotFound), fresh_store(0 := \<lparr>inner = [Atom ''Cast'' ''John Doe'']\<rparr>))"
proof -
  have 1: "\<not> existsSync (fs_of [''other.mp4'']) (source (Subler_new ''movie.mp4'' 0))"
    by (simp add: existsSync_def fs_of_def Subler_new_def)
  from 1 buildTagCommand_SourceNotFound [OF 1] show ?thesis
    by (rule conjI)
qed

text \<open>
  C7. \<open>args\<close> returns the empty list for the empty collection. For a collection that is
  not empty it returns two elements: \<open>-metadata\<close>, and the renderings of the atoms by
  \<open>arg\<close>, one per stored atom, in the order of the collection, joined with nothing
  between them.
\<close>

theorem Atoms_args_render:
  "Atoms_args Atoms_new = [] \<and>
   (inner a = [] \<longrightarrow> Atoms_args a = []) \<and>
   (inner a \<noteq> [] \<longrightarrow>
      length (Atoms_args a) = 2 \<and>
      Atoms_args a = [''-metadata'', concat (map Atom_arg (inner a))])"
  by (simp add: Atoms_args_def Atoms_new_def)

theorem Atoms_args_render_witness:
  "inner \<lparr>inner = [Atom ''Cast'' ''John Doe'', Atom ''Cast'' ''Jane Doe'']\<rparr> \<noteq> [] \<and>
   Atoms_args \<lparr>inner = [Atom ''Cast'' ''John Doe'', Atom ''Cast'' ''Jane Doe'']\<rparr> =
     [''-metadata'', ''{'Cast':'John Doe'}{'Cast':'Jane Doe'}''] \<and>
   inner Atoms_new = [] \<and> Atoms_args Atoms_new = []"
  using Atoms_args_render [of "\<lparr>inner = [Atom ''Cast'' ''John Doe'', Atom ''Cast'' ''Jane Doe'']\<rparr>"]
  by (simp add: Atom_arg_Cast_John_Doe Atom_arg_Cast_Jane_Doe Atoms_new_def)

lemma suffixed_Tom_0: "suffixed ''Tom & Jerry's.mp4'' 0 = ''Tom & Jerry's.0.mp4''"
  by code_simp

lemma backslash_escaped_Tom:
  "backslash_escaped ''Tom & Jerry's.mp4'' =
     ''Tom'' @ [backslash] @ '' '' @ [backslash] @ ''&'' @ [backslash] @ '' Jerry'' @
     [backslash] @ '''s.mp4''"
  by code_simp

lemma backslash_escaped_Tom_0:
  "backslash_escaped ''Tom & Jerry's.0.mp4'' =
     ''Tom'' @ [backslash] @ '' '' @ [backslash] @ ''&'' @ [backslash] @ '' Jerry'' @
     [backslash] @ '''s.0.mp4''"
  by code_simp

text \<open>
  C8. \<open>buildTagCommand\<close> returns a command whenever the source exists and the
  destination search finds a path, and only then. In that command the argument after
  \<open>-source\<close> is the source path and the argument after \<open>-dest\<close> is the resolved
  destination, each with a backslash put before every whitespace character, ampersand
  and single quote and with every other character as it was; nothing is put around the
  path. The destination \<open>dest & path\<close> comes out as \<open>dest\ \&\ path\<close>.
\<close>

theorem buildTagCommand_escapes_paths:
  "(existsSync fs (source this) \<and> determineDest fs this = Some (Some d) \<longrightarrow>
      (\<exists>c h'. buildTagCommand fs e this h = (Some (Inr c), h') \<and>
               take 4 (args c) =
                 [''-source'', backslash_escaped (source this),
                  ''-dest'', backslash_escaped d])) \<and>
   (buildTagCommand fs e this h = (Some (Inr c), h') \<longrightarrow>
      existsSync fs (source this) \<and>
      (\<exists>d. determineDest fs this = Some (Some d) \<and>
           take 4 (args c) =
             [''-source'', backslash_escaped (source this),
              ''-dest'', backslash_escaped d]))"
proof (intro conjI impI)
  assume "existsSync fs (source this) \<and> determineDest fs this = Some (Some d)"
  then have "existsSync fs (source this)" and "determineDest fs this = Some (Some d)"
    by simp_all
  from buildTagCommand_command [OF this, of e h]
  show "\<exists>c h'. buildTagCommand fs e this h = (Some (Inr c), h') \<and>
               take 4 (args c) =
                 [''-source'', backslash_escaped (source this),
                  ''-dest'', backslash_escaped d]"
    by (intro exI conjI, assumption) simp
next
  assume run: "buildTagCommand fs e this h = (Some (Inr c), h')"
  from buildTagCommand_Inr [OF run] show "existsSync fs (source this)"
    by simp
  from buildTagCommand_Inr [OF run]
  show "\<exists>d. determineDest fs this = Some (Some d) \<and>
           take 4 (args c) =
             [''-source'', backslash_escaped (source this),
              ''-dest'', backslash_escaped d]"
    by auto
qed

theorem buildTagCommand_escapes_paths_witness:
  "existsSync (fs_of [''Tom & Jerry's.mp4''])
     (source (Subler_dest (Subler_new ''Tom & Jerry's.mp4'' 0) ''dest & path'')) \<and>
   determineDest (fs_of [''Tom & Jerry's.mp4''])
     (Subler_dest (Subler_new ''Tom & Jerry's.mp4'' 0) ''dest & path'') =
     Some (Some ''dest & path'') \<and>
   (\<exists>c h'. buildTagCommand (fs_of [''Tom & Jerry's.mp4'']) None
             (Subler_dest (Subler_new ''Tom & Jerry's.mp4'' 0) ''dest & path'') fresh_store =
             (Some (Inr c), h') \<and>
           take 4 (args c) =
             [''-source'',
              ''Tom'' @ [backslash] @ '' '' @ [backslash] @ ''&'' @ [backslash] @ '' Jerry'' @
                [backslash] @ '''s.mp4'',
              ''-dest'',
              ''dest'' @ [backslash] @ '' '' @ [backslash] @ ''&'' @ [backslash] @ '' path'']) \<and>
   existsSync (fs_of [''Tom & Jerry's.mp4'']) (source (Subler_new ''Tom & Jerry's.mp4'' 0)) \<and>
   determineDest (fs_of [''Tom & Jerry's.mp4'']) (Subler_new ''Tom & Jerry's.mp4'' 0) =
     Some (Some ''Tom & Jerry's.0.mp4'') \<and>
   (\<exists>c h'. buildTagCommand (fs_of [''Tom & Jerry's.mp4'']) None
             (Subler_new ''Tom & Jerry's.mp4'' 0) fresh_store = (Some (Inr c), h') \<and>
           take 4 (args c) =
             [''-source'',
              ''Tom'' @ [backslash] @ '' '' @ [backslash] @ ''&'' @ [backslash] @ '' Jerry'' @
                [backslash] @ '''s.mp4'',
              ''-dest'',
              ''Tom'' @ [backslash] @ '' '' @ [backslash] @ ''&'' @ [backslash] @ '' Jerry'' @
                [backslash] @ '''s.0.mp4''])"
proof -
  let ?fs = "fs_of [''Tom & Jerry's.mp4'']"
  let ?plain = "Subler_new ''Tom & Jerry's.mp4'' 0"
  let ?explicit = "Subler_dest ?plain ''dest & path''"
  have src: "source ?explicit = ''Tom & Jerry's.mp4''" "source ?plain = ''Tom & Jerry's.mp4''"
    by (simp_all add: Subler_dest_def Subler_new_def)
  have ex: "existsSync ?fs (source ?explicit)" "existsSync ?fs (source ?plain)"
    by (simp_all add: src existsSync_def fs_of_def)
  have d1: "determineDest ?fs ?explicit = Some (Some ''dest & path'')"
    by (rule determineDest_explicit)
       (simp_all add: Subler_dest_def Subler_new_def existsSync_def fs_of_def)
  have "dest ?plain = None"
    by (simp add: Subler_new_def)
  moreover have "\<not> existsSync ?fs (suffixed (source ?plain) 0)"
    by (simp add: src suffixed_Tom_0 existsSync_def fs_of_def)
  ultimately have "determineDest ?fs ?plain = Some (Some (suffixed (source ?plain) 0))"
    by (rule determineDest_default)
  then have d2: "determineDest ?fs ?plain = Some (Some ''Tom & Jerry's.0.mp4'')"
    by (simp only: src suffixed_Tom_0)
  from ex(1) d1
  have "existsSync ?fs (source ?explicit) \<and>
      determineDest ?fs ?explicit = Some (Some ''dest & path'')"
    by (rule conjI)
  with buildTagCommand_escapes_paths
      [of ?fs ?explicit "''dest & path''" None fresh_store, THEN conjunct1]
  have r1: "\<exists>c h'. buildTagCommand ?fs None ?explicit fresh_store = (Some (Inr c), h') \<and>
      take 4 (args c) =
        [''-source'', backslash_escaped (source ?explicit),
         ''-dest'', backslash_escaped ''dest & path'']"
    by (rule mp)
  from ex(2) d2
  have "existsSync ?fs (source ?plain) \<and>
      determineDest ?fs ?plain = Some (Some ''Tom & Jerry's.0.mp4'')"
    by (rule conjI)
  with buildTagCommand_escapes_paths
      [of ?fs ?plain "''Tom & Jerry's.0.mp4''" None fresh_store, THEN conjunct1]
  have r2: "\<exists>c h'. buildTagCommand ?fs None ?plain fresh_store = (Some (Inr c), h') \<and>
      take 4 (args c) =
        [''-source'', backslash_escaped (source ?plain),
         ''-dest'', backslash_escaped ''Tom & Jerry's.0.mp4'']"
    by (rule mp)
  from r1 r2 have
    "\<exists>c h'. buildTagCommand ?fs None ?explicit fresh_store = (Some (Inr c), h') \<and>
      take 4 (args c) =
        [''-source'',
         ''Tom'' @ [backslash] @ '' '' @ [backslash] @ ''&'' @ [backslash] @ '' Jerry'' @
           [backslash] @ '''s.mp4'',
         ''-dest'',
         ''dest'' @ [backslash] @ '' '' @ [backslash] @ ''&'' @ [backslash] @ '' path'']"
    and
    "\<exists>c h'. buildTagCommand ?fs None ?plain fresh_store = (Some (Inr c), h') \<and>
      take 4 (args c) =
        [''-source'',
         ''Tom'' @ [backslash] @ '' '' @ [backslash] @ ''&'' @ [backslash] @ '' Jerry'' @
           [backslash] @ '''s.mp4'',
         ''-dest'',
         ''Tom'' @ [backslash] @ '' '' @ [backslash] @ ''&'' @ [backslash] @ '' Jerry'' @
           [backslash] @ '''s.0.mp4'']"
    by (simp_all only: src backslash_escaped_Tom backslash_escaped_Tom_0
        backslash_escaped_dest_path)
  with ex d1 d2 show ?thesis
    by (intro conjI)
qed

lemma buildTagCommand_movie_not_optimised:
  "buildTagCommand (fs_of [''movie.mp4'']) (Some ''/opt/SublerCli'')
     (Subler_optimise (Subler_new ''movie.mp4'' 0) False) fresh_store =
   (Some (Inr \<lparr>command = ''/opt/SublerCli'',
               args = [''-source'', ''movie.mp4'', ''-dest'', ''movie.0.mp4'',
                       ''-metadata'', ''{'Media Kind':'Movie'}'',
                       ''-chapterspreview'', ''-organizegroups'', ''-64bitchunk'']\<rparr>),
    fresh_store(0 := \<lparr>inner = [Atom ''Media Kind'' ''Movie'']\<rparr>))"
proof -
  have "determineDest (fs_of [''movie.mp4'']) (Subler_optimise (Subler_new ''movie.mp4'' 0) False) =
          Some (Some ''movie.0.mp4'')"
    by (simp add: determineDest_def Subler_new_def Subler_optimise_def
        nextAvailablePath_movie_free)
  then show ?thesis
    by (simp add: buildTagCommand_def existsSync_def fs_of_def Subler_new_def
        Subler_optimise_def fresh_store_def
        Atoms_new_def Atoms_addAtom_def Atoms_args_def Atom_arg_Media_Kind_Movie
        shell_special_def is_whitespace_def quote_def executable_def)
qed

text \<open>
  C9, as stated: the executable is the override of the environment when it is set. It
  fails when \<open>SUBLER_PATH\<close> is set to the empty string: the default builder for
  \<open>movie.mp4\<close>, accepted on the file system that holds \<open>movie.mp4\<close>, gets the default
  path and not the override.
\<close>

theorem buildTagCommand_empty_override:
  "\<exists>c h'. buildTagCommand (fs_of [''movie.mp4'']) (Some []) (Subler_new ''movie.mp4'' 0)
             fresh_store = (Some (Inr c), h') \<and>
          command c = ''/usr/local/bin/SublerCli'' \<and> command c \<noteq> []"
  by (simp add: buildTagCommand_movie executable_def)

text \<open>
  C9, amended: in every command that \<open>buildTagCommand\<close> returns, the arguments are
  \<open>-source\<close> and the escaped source, \<open>-dest\<close> and the escaped destination, then
  \<open>-metadata\<close> and the rendered atoms if the collection, as the call leaves it, is not
  empty, then \<open>-chapterspreview\<close>, \<open>-optimize\<close>, \<open>-organizegroups\<close> and \<open>-64bitchunk\<close>
  in this order, each if and only if its flag is enabled, and nothing else. The
  executable is the value of the environment variable when that is set and not empty,
  else the default path.
\<close>

theorem buildTagCommand_argument_order:
  assumes "buildTagCommand fs e this h = (Some (Inr c), h')"
  shows "\<exists>d. determineDest fs this = Some (Some d) \<and>
           args c =
             [''-source'', backslash_escaped (source this), ''-dest'', backslash_escaped d]
             @ (if inner (h' (atoms this)) = [] then []
                else [''-metadata'', concat (map Atom_arg (inner (h' (atoms this))))])
             @ (if chaptersPreview this then [''-chapterspreview''] else [])
             @ (if optimize this then [''-optimize''] else [])
             @ (if organizeGroups this then [''-organizegroups''] else [])
             @ (if bitChunk64 this then [''-64bitchunk''] else []) \<and>
           command c =
             (case e of
                None \<Rightarrow> ''/usr/local/bin/SublerCli''
              | Some p \<Rightarrow> if p = [] then ''/usr/local/bin/SublerCli'' else p)"
proof -
  from buildTagCommand_Inr [OF assms] obtain d where
    d: "determineDest fs this = Some (Some d)"
    and c: "command c = executable e"
    and a: "args c =
        [''-source'', backslash_escaped (source this), ''-dest'', backslash_escaped d]
        @ Atoms_args (h' (atoms this))
        @ (if chaptersPreview this then [''-chapterspreview''] else [])
        @ (if optimize this then [''-optimize''] else [])
        @ (if organizeGroups this then [''-organizegroups''] else [])
        @ (if bitChunk64 this then [''-64bitchunk''] else [])"
    by blast
  have "Atoms_args (h' (atoms this)) =
      (if inner (h' (atoms this)) = [] then []
       else [''-metadata'', concat (map Atom_arg (inner (h' (atoms this))))])"
    by (simp add: Atoms_args_def)
  moreover have "executable e =
      (case e of
         None \<Rightarrow> ''/usr/local/bin/SublerCli''
       | Some p \<Rightarrow> if p = [] then ''/usr/local/bin/SublerCli'' else p)"
    by (simp add: executable_def split: option.splits)
  ultimately show ?thesis
    using d c a by (intro exI [of _ d]) (simp only: simp_thms)
qed

theorem buildTagCommand_argument_order_witness:
  "\<exists>c h'. buildTagCommand (fs_of [''movie.mp4'']) (Some ''/opt/SublerCli'')
             (Subler_optimise (Subler_new ''movie.mp4'' 0) False) fresh_store =
             (Some (Inr c), h') \<and>
          args c = [''-source'', ''movie.mp4'', ''-dest'', ''movie.0.mp4'',
                    ''-metadata'', ''{'Media Kind':'Movie'}'',
                    ''-chapterspreview'', ''-organizegroups'', ''-64bitchunk''] \<and>
          command c = ''/opt/SublerCli''"
proof -
  let ?builder = "Subler_optimise (Subler_new ''movie.mp4'' 0) False"
  let ?h = "fresh_store(0 := \<lparr>inner = [Atom ''Media Kind'' ''Movie'']\<rparr>)"
  obtain c where run:
    "buildTagCommand (fs_of [''movie.mp4'']) (Some ''/opt/SublerCli'') ?builder fresh_store =
       (Some (Inr c), ?h)"
    by (simp add: buildTagCommand_movie_not_optimised)
  from buildTagCommand_argument_order [OF run] obtain d where
    d: "determineDest (fs_of [''movie.mp4'']) ?builder = Some (Some d)"
    and a: "args c =
        [''-source'', backslash_escaped (source ?builder), ''-dest'', backslash_escaped d]
        @ (if inner (?h (atoms ?builder)) = [] then []
           else [''-metadata'', concat (map Atom_arg (inner (?h (atoms ?builder))))])
        @ (if chaptersPreview ?builder then [''-chapterspreview''] else [])
        @ (if optimize ?builder then [''-optimize''] else [])
        @ (if organizeGroups ?builder then [''-organizegroups''] else [])
        @ (if bitChunk64 ?builder then [''-64bitchunk''] else [])"
    and x: "command c =
        (case Some ''/opt/SublerCli'' of
           None \<Rightarrow> ''/usr/local/bin/SublerCli''
         | Some p \<Rightarrow> if p = [] then ''/usr/local/bin/SublerCli'' else p)"
    by blast
  have "determineDest (fs_of [''movie.mp4'']) ?builder = Some (Some ''movie.0.mp4'')"
    by (simp add: determineDest_def Subler_new_def Subler_optimise_def
        nextAvailablePath_movie_free)
  with d have "d = ''movie.0.mp4''"
    by simp
  with a have "args c = [''-source'', ''movie.mp4'', ''-dest'', ''movie.0.mp4'',
                    ''-metadata'', ''{'Media Kind':'Movie'}'',
                    ''-chapterspreview'', ''-organizegroups'', ''-64bitchunk'']"
    by (simp add: Subler_new_def Subler_optimise_def Atom_arg_Media_Kind_Movie
        backslash_escaped_movie backslash_escaped_movie_0)
  moreover from x have "command c = ''/opt/SublerCli''"
    by simp
  ultimately show ?thesis
    using run by blast
qed













end
